theory Spec2Isabelle
  imports Complex_Main
begin

section \<open>Values, ORM instances and the metric registry\<close>

text \<open>
  The engine is written in Python on top of an ORM. The classes of \<^verbatim>\<open>api/models.py\<close>
  are instances whose columns are read by attribute name and written with
  \<^verbatim>\<open>setattr(obj, key, value)\<close> for keys computed at run time, so an instance is
  modelled as what Python makes of it: a mapping from attribute names to values. A column
  that was never set reads as \<^verbatim>\<open>None\<close>.
\<close>

datatype val =
    VNone | VBool bool | VInt int | VFloat real | VStr string
  | VList "val list" | VDict "(string \<times> val) list"

type_synonym obj = "string \<Rightarrow> val"


definition setattr :: "obj \<Rightarrow> string \<Rightarrow> val \<Rightarrow> obj" where
  "setattr ob k v = ob(k := v)"

text \<open>An instance given by the attributes that were set on it, for writing examples.\<close>

definition obj_of :: "(string \<times> val) list \<Rightarrow> obj" where
  "obj_of kvs = (\<lambda>k. case map_of kvs k of None \<Rightarrow> VNone | Some v \<Rightarrow> v)"

text \<open>Python's truth value of an object, as \<^verbatim>\<open>not x\<close> and \<^verbatim>\<open>if x:\<close> test it.\<close>

fun truthy :: "val \<Rightarrow> bool" where
  "truthy VNone = False"
| "truthy (VBool b) = b"
| "truthy (VInt i) = (i \<noteq> 0)"
| "truthy (VFloat x) = (x \<noteq> 0)"
| "truthy (VStr s) = (s \<noteq> [])"
| "truthy (VList vs) = (vs \<noteq> [])"
| "truthy (VDict kvs) = (kvs \<noteq> [])"

text \<open>
  A \<^verbatim>\<open>models.Result\<close> with its observations, a \<^verbatim>\<open>models.Experiment\<close> with the
  relationships the code follows (\<^verbatim>\<open>exp.dataset\<close>, \<^verbatim>\<open>exp.model\<close>,
  \<^verbatim>\<open>exp.results\<close>), and a \<^verbatim>\<open>models.ExperimentSet\<close> with its experiments.
\<close>

record Result =
  r_attrs :: obj
  observation_table :: "obj list"

record Experiment =
  e_attrs :: obj
  dataset :: obj
  model :: "obj option"
  results :: "Result list"

record ExperimentSet =
  s_attrs :: obj
  experiments :: "Experiment list"

text \<open>
  \<^verbatim>\<open>metric_registry.get_metric(name).require\<close>: the registry itself
  (\<^verbatim>\<open>api/metrics/__init__.py\<close>) is not among the sources, so the requirement list of a
  metric is a parameter of every function that consults it. Metric names are members of
  \<^verbatim>\<open>MetricEnum\<close>, which is built from the registry's own names.
\<close>

type_synonym registry = "val \<Rightarrow> string list"

text \<open>
  The exceptions the code raises, and what an endpoint turns them into. A function that can
  raise returns a sum, the exception on the left.
\<close>

datatype error =
    SchemaError string | ValidationError string | IntegrityError string
  | ValueError string | TypeError string

datatype http_exception = HTTPException nat string

section \<open>endpoints.py: which phase an experiment starts with\<close>

text \<open>
  \<^verbatim>\<open>
  def _needs_output(db_exp):
      return not db_exp.dataset.has_output and any(
          "output" in metric_registry.get_metric(r.metric_name).require for r in db_exp.results
      )
  \<close>
\<close>

definition needs_output :: "registry \<Rightarrow> Experiment \<Rightarrow> bool" where
  "needs_output mr db_exp \<longleftrightarrow>
     \<not> truthy (dataset db_exp ''has_output'') \<and>
     list_ex (\<lambda>r. ''output'' \<in> set (mr (r_attrs r ''metric_name''))) (results db_exp)"

section \<open>endpoints.py: the retry planner\<close>

record RetryRuns =
  experiment_ids :: "val list"
  result_ids :: "val list"

text \<open>The inner loop of \<^verbatim>\<open>retry_runs\<close>, over \<^verbatim>\<open>exp.results\<close>.\<close>

fun retry_results :: "Result list \<Rightarrow> RetryRuns \<Rightarrow> RetryRuns" where
  "retry_results [] rr = rr"
| "retry_results (result # rest) rr =
     (if r_attrs result ''metric_status'' \<noteq> VStr ''finished'' then retry_results rest rr
      else if r_attrs result ''num_try'' \<noteq> r_attrs result ''num_success''
      then retry_results rest (rr\<lparr>result_ids := result_ids rr @ [r_attrs result ''id'']\<rparr>)
      else retry_results rest rr)"

text \<open>The outer loop, over \<^verbatim>\<open>experimentset.experiments\<close>, with its two \<^verbatim>\<open>continue\<close>s.\<close>

fun retry_experiments :: "registry \<Rightarrow> Experiment list \<Rightarrow> RetryRuns \<Rightarrow> RetryRuns" where
  "retry_experiments mr [] rr = rr"
| "retry_experiments mr (db_exp # rest) rr =
     (if e_attrs db_exp ''experiment_status'' \<noteq> VStr ''finished'' then retry_experiments mr rest rr
      else if e_attrs db_exp ''num_try'' \<noteq> e_attrs db_exp ''num_success'' \<and> needs_output mr db_exp
      then retry_experiments mr rest
             (rr\<lparr>experiment_ids := experiment_ids rr @ [e_attrs db_exp ''id'']\<rparr>)
      else retry_experiments mr rest (retry_results (results db_exp) rr))"

text \<open>\<^verbatim>\<open>crud.get_experimentset\<close>: \<^verbatim>\<open>db.query(models.ExperimentSet).get(id)\<close>.\<close>

definition get_experimentset :: "ExperimentSet list \<Rightarrow> int \<Rightarrow> ExperimentSet option" where
  "get_experimentset db experimentset_id =
     find (\<lambda>s. s_attrs s ''id'' = VInt experimentset_id) db"

text \<open>
  \<^verbatim>\<open>retry_runs\<close>: 404 when the set does not exist; otherwise the \<^verbatim>\<open>RetryRuns\<close>
  that is handed to \<^verbatim>\<open>dispatch_retries\<close> and returned.
\<close>

definition retry_runs ::
  "registry \<Rightarrow> ExperimentSet list \<Rightarrow> int \<Rightarrow> http_exception + RetryRuns" where
  "retry_runs mr db set_id =
     (case get_experimentset db set_id of
        None \<Rightarrow> Inl (HTTPException 404 ''ExperimentSet not found'')
      | Some experimentset \<Rightarrow>
          Inr (retry_experiments mr (experiments experimentset)
                 \<lparr>experiment_ids = [], result_ids = []\<rparr>))"

text \<open>The retry planner in the words of the specification.\<close>

definition exp_finished :: "Experiment \<Rightarrow> bool" where
  "exp_finished e \<longleftrightarrow> e_attrs e ''experiment_status'' = VStr ''finished''"

definition answers_incomplete :: "registry \<Rightarrow> Experiment \<Rightarrow> bool" where
  "answers_incomplete mr e \<longleftrightarrow>
     e_attrs e ''num_try'' \<noteq> e_attrs e ''num_success'' \<and> needs_output mr e"

definition result_incomplete :: "Result \<Rightarrow> bool" where
  "result_incomplete r \<longleftrightarrow>
     r_attrs r ''metric_status'' = VStr ''finished'' \<and>
     r_attrs r ''num_try'' \<noteq> r_attrs r ''num_success''"

definition planned_experiment_ids :: "registry \<Rightarrow> Experiment list \<Rightarrow> val list" where
  "planned_experiment_ids mr es =
     map (\<lambda>e. e_attrs e ''id'')
       (filter (\<lambda>e. exp_finished e \<and> answers_incomplete mr e) es)"

definition planned_result_ids :: "registry \<Rightarrow> Experiment list \<Rightarrow> val list" where
  "planned_result_ids mr es =
     concat (map (\<lambda>e. map (\<lambda>r. r_attrs r ''id'') (filter result_incomplete (results e)))
       (filter (\<lambda>e. exp_finished e \<and> \<not> answers_incomplete mr e) es))"

subsection \<open>An experiment set with failures of every kind\<close>

definition ex_registry :: registry where
  "ex_registry n = (if n = VStr ''judge_exactness'' then [''output'', ''output_true'']
                    else if n = VStr ''nb_tokens_prompt'' then [''query''] else [])"

definition ex_result :: "int \<Rightarrow> string \<Rightarrow> string \<Rightarrow> int \<Rightarrow> int \<Rightarrow> Result" where
  "ex_result i m st t s =
     \<lparr>r_attrs = obj_of [(''id'', VInt i), (''metric_name'', VStr m), (''metric_status'', VStr st),
                         (''num_try'', VInt t), (''num_success'', VInt s)],
      observation_table = []\<rparr>"

definition ex_experiment :: "int \<Rightarrow> string \<Rightarrow> int \<Rightarrow> int \<Rightarrow> bool \<Rightarrow> Result list \<Rightarrow> Experiment" where
  "ex_experiment i st t s has_out rs =
     \<lparr>e_attrs = obj_of [(''id'', VInt i), (''experiment_status'', VStr st),
                         (''num_try'', VInt t), (''num_success'', VInt s)],
      dataset = obj_of [(''has_query'', VBool True), (''has_output'', VBool has_out)],
      model = None,
      results = rs\<rparr>"

definition ex_set :: ExperimentSet where
  "ex_set = \<lparr>s_attrs = obj_of [(''id'', VInt 1), (''name'', VStr ''s'')],
     experiments =
       [ex_experiment 10 ''finished'' 5 3 False [ex_result 20 ''judge_exactness'' ''finished'' 3 3],
        ex_experiment 11 ''finished'' 5 5 False
          [ex_result 21 ''judge_exactness'' ''finished'' 5 4,
           ex_result 22 ''nb_tokens_prompt'' ''finished'' 5 5,
           ex_result 23 ''judge_exactness'' ''running'' 2 1],
        ex_experiment 12 ''running_metrics'' 5 3 False [ex_result 24 ''judge_exactness'' ''finished'' 3 1],
        ex_experiment 13 ''finished'' 5 3 True [ex_result 31 ''judge_exactness'' ''finished'' 5 2]]\<rparr>"

section \<open>Python strings and integers\<close>

text \<open>
  \<^verbatim>\<open>str(n)\<close> and \<^verbatim>\<open>f"{n}"\<close> of an integer: its decimal digits, with a minus sign
  when it is negative.
\<close>

definition digit_char :: "nat \<Rightarrow> char" where
  "digit_char d = ''0123456789'' ! d"

function str_nat :: "nat \<Rightarrow> string" where
  "str_nat n = (if n < 10 then [digit_char n] else str_nat (n div 10) @ [digit_char (n mod 10)])"
  by pat_completeness auto
termination
  by (relation "measure id") auto

declare str_nat.simps [simp del]

definition str_int :: "int \<Rightarrow> string" where
  "str_int i = (if i < 0 then CHR ''-'' # str_nat (nat (- i)) else str_nat (nat i))"

definition is_digit :: "char \<Rightarrow> bool" where
  "is_digit c \<longleftrightarrow> c \<in> set ''0123456789''"

definition digit_val :: "char \<Rightarrow> nat" where
  "digit_val c = of_char c - 48"

definition digits_val :: "string \<Rightarrow> nat" where
  "digits_val s = foldl (\<lambda>acc c. 10 * acc + digit_val c) 0 (filter is_digit s)"

definition is_space :: "char \<Rightarrow> bool" where
  "is_space c \<longleftrightarrow> c \<in> set [CHR '' '', CHR 0x09, CHR 0x0A, CHR 0x0B, CHR 0x0C, CHR 0x0D]"

definition strip :: "string \<Rightarrow> string" where
  "strip s = rev (dropWhile is_space (rev (dropWhile is_space s)))"

fun digits_ok :: "string \<Rightarrow> bool" where
  "digits_ok [] = False"
| "digits_ok [c] = is_digit c"
| "digits_ok (c # d # cs) =
     (is_digit c \<and> (if d = CHR ''_'' then digits_ok cs else digits_ok (d # cs)))"

definition py_int :: "string \<Rightarrow> int option" where
  "py_int s =
     (let t = strip s;
          neg = (t \<noteq> [] \<and> hd t = CHR ''-'');
          body = (if t \<noteq> [] \<and> (hd t = CHR ''-'' \<or> hd t = CHR ''+'') then tl t else t)
      in if digits_ok body
         then Some (if neg then - int (digits_val body) else int (digits_val body))
         else None)"

fun split_sep :: "string \<Rightarrow> string \<Rightarrow> string list" where
  "split_sep acc [] = [rev acc]"
| "split_sep acc [c] = [rev (c # acc)]"
| "split_sep acc (c # d # cs) =
     (if c = CHR ''_'' \<and> d = CHR ''_'' then rev acc # split_sep [] cs
      else split_sep (c # acc) (d # cs))"

definition split :: "string \<Rightarrow> string list" where
  "split s = split_sep [] s"

fun join :: "string list \<Rightarrow> string" where
  "join [] = []"
| "join [p] = p"
| "join (p # q # ps) = p @ ''__'' @ join (q # ps)"

definition ends_with_number :: "string \<Rightarrow> bool" where
  "ends_with_number s \<longleftrightarrow>
     (let r = rev s in
      takeWhile is_digit r \<noteq> [] \<and> take 2 (dropWhile is_digit r) = ''__'')"

definition re_search_suffix :: "string \<Rightarrow> bool" where
  "re_search_suffix s \<longleftrightarrow>
     ends_with_number s \<or> (s \<noteq> [] \<and> last s = CHR 0x0A \<and> ends_with_number (butlast s))"

section \<open>crud.py: tables and queries\<close>

text \<open>
  A table is the list of its rows, oldest first. \<^verbatim>\<open>db.query(M).get(id)\<close> and
  \<^verbatim>\<open>.filter(...).first()\<close> return the first row that matches, or \<^verbatim>\<open>None\<close>. The
  instance they return is the row itself: what the code sets on it is what
  \<^verbatim>\<open>db.commit()\<close> stores, which \<open>update_first\<close> writes back in place. The constraints
  of the schema are declared in \<^verbatim>\<open>api/models.py\<close>, which is not among the sources:
  \<^verbatim>\<open>db.commit()\<close> is taken to succeed.
\<close>

fun update_first :: "('a \<Rightarrow> bool) \<Rightarrow> ('a \<Rightarrow> 'a) \<Rightarrow> 'a list \<Rightarrow> 'a list" where
  "update_first P f [] = []"
| "update_first P f (x # xs) = (if P x then f x # xs else x # update_first P f xs)"

section \<open>crud.py: removing a dataset\<close>

text \<open>
  \<^verbatim>\<open>
  def remove_dataset(db, dataset_id):
      linked_experiments = (
          db.query(func.count(models.Experiment.id))
          .filter(models.Experiment.dataset_id == dataset_id).scalar())
      if linked_experiments > 0:
          raise SchemaError(
              f"This dataset is linked to {linked_experiments} experiments.\n"
              "You must either delete linked experiments or associated them to another dataset to remove this one.")
      db_dataset = db.query(models.Dataset).get(dataset_id)
      if db_dataset is None:
          return False
      db.delete(db_dataset)
      db.commit()
      return True
  \<close>
  The function returns what the Python returns or raises, and the dataset table as it is
  afterwards; \<^verbatim>\<open>db.delete\<close> deletes the row with the instance's primary key.
\<close>

definition linked_count :: "Experiment list \<Rightarrow> int \<Rightarrow> int" where
  "linked_count exps dataset_id =
     int (length (filter (\<lambda>e. e_attrs e ''dataset_id'' = VInt dataset_id) exps))"

definition linked_message :: "int \<Rightarrow> string" where
  "linked_message n =
     ''This dataset is linked to '' @ str_int n @ '' experiments.'' @ [CHR 0x0A] @
     ''You must either delete linked experiments or associated them to another dataset to remove this one.''"

definition remove_dataset ::
  "obj list \<Rightarrow> Experiment list \<Rightarrow> int \<Rightarrow> (error + bool) \<times> obj list" where
  "remove_dataset datasets exps dataset_id =
     (let linked_experiments = linked_count exps dataset_id in
      if linked_experiments > 0 then (Inl (SchemaError (linked_message linked_experiments)), datasets)
      else (case find (\<lambda>d. d ''id'' = VInt dataset_id) datasets of
              None \<Rightarrow> (Inr False, datasets)
            | Some db_dataset \<Rightarrow>
                (Inr True, filter (\<lambda>d. d ''id'' \<noteq> db_dataset ''id'') datasets)))"

subsection \<open>A dataset that two experiments use, and one that none uses\<close>

definition ex_datasets :: "obj list" where
  "ex_datasets =
     [obj_of [(''id'', VInt 1), (''name'', VStr ''mfs''), (''readme'', VStr ''questions''),
              (''has_query'', VBool True), (''size'', VInt 5)],
      obj_of [(''id'', VInt 2), (''name'', VStr ''unused''), (''has_query'', VBool True)]]"

definition ex_linked :: "Experiment list" where
  "ex_linked =
     [\<lparr>e_attrs = obj_of [(''id'', VInt 10), (''dataset_id'', VInt 1)],
       dataset = ex_datasets ! 0, model = None, results = []\<rparr>,
      \<lparr>e_attrs = obj_of [(''id'', VInt 11), (''dataset_id'', VInt 1)],
       dataset = ex_datasets ! 0, model = None, results = []\<rparr>]"

section \<open>crud.py: updates\<close>




text \<open>
  \<^verbatim>\<open>update_experiment\<close> adds to the loop:
  \<^verbatim>\<open>
          # If experiment_status is set to finished, update all result status too.
          if key == "experiment_status" and value == schemas.ExperimentStatus.finished:
              for result in db_exp.results:
                  result.metric_status = schemas.MetricStatus.finished
  \<close>
  The two statuses are \<^verbatim>\<open>str\<close> enumerations, equal to the strings they are made of.
\<close>

definition finish_result :: "Result \<Rightarrow> Result" where
  "finish_result result = result\<lparr>r_attrs := setattr (r_attrs result) ''metric_status'' (VStr ''finished'')\<rparr>"

fun update_experiment_fields :: "Experiment \<Rightarrow> (string \<times> val) list \<Rightarrow> Experiment" where
  "update_experiment_fields db_exp [] = db_exp"
| "update_experiment_fields db_exp ((key, value) # rest) =
     (let db_exp1 = (if value \<noteq> VNone
                     then db_exp\<lparr>e_attrs := setattr (e_attrs db_exp) key value\<rparr> else db_exp);
          db_exp2 = (if key = ''experiment_status'' \<and> value = VStr ''finished''
                     then db_exp1\<lparr>results := map finish_result (results db_exp1)\<rparr> else db_exp1)
      in update_experiment_fields db_exp2 rest)"

definition update_experiment ::
  "Experiment list \<Rightarrow> int \<Rightarrow> (string \<times> val) list \<Rightarrow> Experiment option \<times> Experiment list" where
  "update_experiment db experiment_id experiment_update =
     (case find (\<lambda>e. e_attrs e ''id'' = VInt experiment_id) db of
        None \<Rightarrow> (None, db)
      | Some db_exp \<Rightarrow>
          (let updated = update_experiment_fields db_exp experiment_update
           in (Some updated,
               update_first (\<lambda>e. e_attrs e ''id'' = VInt experiment_id) (\<lambda>_. updated) db)))"



subsection \<open>A finished experiment with a failed observation, and two patches\<close>

definition ex_running :: Experiment where
  "ex_running =
     \<lparr>e_attrs = obj_of [(''id'', VInt 10), (''name'', VStr ''run''), (''readme'', VStr ''first''),
                         (''experiment_status'', VStr ''running_metrics''),
                         (''num_try'', VInt 5), (''num_success'', VInt 5)],
      dataset = ex_datasets ! 0,
      model = None,
      results = [ex_result 21 ''judge_exactness'' ''running'' 5 4,
                 ex_result 22 ''nb_tokens_prompt'' ''pending'' 0 0]\<rparr>"

definition ex_finish :: "(string \<times> val) list" where
  "ex_finish = [(''name'', VNone), (''readme'', VNone), (''experiment_status'', VStr ''finished''),
                (''num_try'', VNone), (''num_success'', VNone)]"



section \<open>crud.py: the upserts of the runners\<close>










subsection \<open>An answer table with one failed row\<close>



section \<open>schemas.py: the creation schemas\<close>

text \<open>
  The request bodies are pydantic models: typed records. \<^verbatim>\<open>DatasetCreate.df\<close> is a
  serialized dataframe, which \<^verbatim>\<open>pd.read_json\<close> either rejects with \<^verbatim>\<open>ValueError\<close> or
  turns into a frame; of the frame the code reads the columns and the length. pandas is a
  parameter \<open>read_json\<close> of the functions that parse a dataset.
\<close>

type_synonym frame_reader = "string \<Rightarrow> (string list \<times> nat) option"

record DatasetCreate =
  dc_name :: string
  dc_df :: string

record ModelCreate =
  mc_name :: string
  mc_base_url :: string
  mc_api_key :: string
  mc_prompt_system :: "string option"
  mc_sampling_params :: "(string \<times> val) list option"
  mc_extra_params :: "(string \<times> val) list option"

record ExperimentCreate =
  ec_name :: string
  ec_readme :: "string option"
  ec_experiment_set_id :: "int option"
  ec_metrics :: "string list"
  ec_dataset :: "DatasetCreate + string"
  ec_model :: "ModelCreate option"

definition opt_val :: "('a \<Rightarrow> val) \<Rightarrow> 'a option \<Rightarrow> val" where
  "opt_val f x = (case x of None \<Rightarrow> VNone | Some y \<Rightarrow> f y)"

text \<open>
  \<^verbatim>\<open>DatasetCreate.to_table_init\<close>:
  \<^verbatim>\<open>
      try:
          df = pd.read_json(StringIO(self.df))
      except ValueError:
          raise SchemaError("'df' should be a readable dataframe. Use df.to_json()...")
      has_query = "query" in df.columns
      has_output = "output" in df.columns
      has_output_true = "output_true" in df.columns
      if not (has_query or has_output):
          raise SchemaError("Your dataset needs at least a column 'query' or 'ouput'.")
      return {"has_query": has_query, "has_output": has_output,
              "has_output_true": has_output_true, "size": len(df), **obj}
  \<close>
  The messages are written without their inner quotation marks.
\<close>

definition DatasetCreate_to_table_init :: "frame_reader \<Rightarrow> DatasetCreate \<Rightarrow> error + obj" where
  "DatasetCreate_to_table_init read_json d =
     (case read_json (dc_df d) of
        None \<Rightarrow> Inl (SchemaError ''df should be a readable dataframe. Use df.to_json()...'')
      | Some (columns, n) \<Rightarrow>
          (let has_query = ''query'' \<in> set columns;
               has_output = ''output'' \<in> set columns;
               has_output_true = ''output_true'' \<in> set columns
           in if \<not> (has_query \<or> has_output)
              then Inl (SchemaError ''Your dataset needs at least a column query or ouput.'')
              else Inr (obj_of [(''has_query'', VBool has_query), (''has_output'', VBool has_output),
                                (''has_output_true'', VBool has_output_true),
                                (''size'', VInt (int n)),
                                (''name'', VStr (dc_name d)), (''df'', VStr (dc_df d))])))"

text \<open>\<^verbatim>\<open>ModelCreate.to_table_init\<close> is \<^verbatim>\<open>model_dump()\<close>.\<close>

definition ModelCreate_to_table_init :: "ModelCreate \<Rightarrow> obj" where
  "ModelCreate_to_table_init m =
     obj_of [(''name'', VStr (mc_name m)), (''base_url'', VStr (mc_base_url m)),
             (''api_key'', VStr (mc_api_key m)),
             (''prompt_system'', opt_val VStr (mc_prompt_system m)),
             (''sampling_params'', opt_val VDict (mc_sampling_params m)),
             (''extra_params'', opt_val VDict (mc_extra_params m))]"

text \<open>\<^verbatim>\<open>ResultCreate(metric_name=metric_name).to_table_init(db)\<close>\<close>

definition ResultCreate_to_table_init :: "string \<Rightarrow> Result" where
  "ResultCreate_to_table_init metric_name =
     \<lparr>r_attrs = obj_of [(''metric_status'', VStr ''pending''), (''metric_name'', VStr metric_name),
                         (''experiment_id'', VNone)],
      observation_table = []\<rparr>"

text \<open>
  The dataset of an experiment under creation, as \<^verbatim>\<open>ExperimentCreate.to_table_init\<close>
  obtains it: a \<^verbatim>\<open>DatasetCreate\<close> is initialised by \<^verbatim>\<open>recurse_table_init\<close> and made a
  new \<^verbatim>\<open>models.Dataset\<close>; a name is looked up.
  \<^verbatim>\<open>
      if isinstance(self.dataset, str):
          dataset = db.query(models.Dataset).filter_by(name=self.dataset).first()
          if not dataset:
              raise SchemaError("Dataset not found")
      else:
          dataset = models.Dataset(**obj["dataset"])
  \<close>
\<close>

definition resolve_dataset ::
  "frame_reader \<Rightarrow> obj list \<Rightarrow> DatasetCreate + string \<Rightarrow> error + obj" where
  "resolve_dataset read_json datasets ds =
     (case ds of
        Inl d \<Rightarrow> DatasetCreate_to_table_init read_json d
      | Inr name \<Rightarrow>
          (case find (\<lambda>d. d ''name'' = VStr name) datasets of
             None \<Rightarrow> Inl (SchemaError ''Dataset not found'')
           | Some stored \<Rightarrow> Inr stored))"

text \<open>
  \<^verbatim>\<open>ExperimentCreate.to_table_init\<close>, after the dataset and the results:
  \<^verbatim>\<open>
      mr = metric_registry
      needs_query = any("query" in mr.get_metric(m).require for m in self.metrics)
      needs_output = any("output" in mr.get_metric(m).require for m in self.metrics)
      needs_output_true = any("output_true" in mr.get_metric(m).require for m in self.metrics)
      if needs_query and not dataset.has_query:
          raise SchemaError("You need to provide a query for this metric. ")
      if needs_output and not self.model and not dataset.has_output:
          raise SchemaError("You need to provide an answer for this metric. ...")
      if needs_output and not dataset.has_output and not dataset.has_query:
          raise SchemaError("You need to provide an answer for this metric. ...")
      if needs_output_true and not dataset.has_output_true:
          raise SchemaError("You need to provide a ground truth for this metric. ...")
      if dataset.has_output and self.model:
          raise SchemaError("You can't give at the same time a model and a dataset with an answer ...")
      return {"experiment_status": "pending", **obj}
  \<close>
  The function returns the dictionary in the shape of the instance that
  \<^verbatim>\<open>create_object_from_dict\<close> makes of it: the scalar entries as attributes, the dataset, the
  model and the results as related instances.
\<close>

definition needs :: "registry \<Rightarrow> string \<Rightarrow> string list \<Rightarrow> bool" where
  "needs mr field metrics = list_ex (\<lambda>m. field \<in> set (mr (VStr m))) metrics"

definition ExperimentCreate_to_table_init ::
  "registry \<Rightarrow> frame_reader \<Rightarrow> obj list \<Rightarrow> ExperimentCreate \<Rightarrow> error + Experiment" where
  "ExperimentCreate_to_table_init mr read_json datasets self =
     (case resolve_dataset read_json datasets (ec_dataset self) of
        Inl e \<Rightarrow> Inl e
      | Inr ds \<Rightarrow>
          (let rs = map ResultCreate_to_table_init (ec_metrics self);
               needs_query = needs mr ''query'' (ec_metrics self);
               needs_output = needs mr ''output'' (ec_metrics self);
               needs_output_true = needs mr ''output_true'' (ec_metrics self)
           in if needs_query \<and> \<not> truthy (ds ''has_query'')
              then Inl (SchemaError ''You need to provide a query for this metric. '')
              else if needs_output \<and> ec_model self = None \<and> \<not> truthy (ds ''has_output'')
              then Inl (SchemaError ''You need to provide an answer for this metric. Either set a model to generate it or provide a dataset with the output field.'')
              else if needs_output \<and> \<not> truthy (ds ''has_output'') \<and> \<not> truthy (ds ''has_query'')
              then Inl (SchemaError ''You need to provide an answer for this metric. Either provide a dataset with the query field to generate the answer or with an output field if have generated it yourself.'')
              else if needs_output_true \<and> \<not> truthy (ds ''has_output_true'')
              then Inl (SchemaError ''You need to provide a ground truth for this metric. Your dataset needs to have an output_true field.'')
              else if truthy (ds ''has_output'') \<and> ec_model self \<noteq> None
              then Inl (SchemaError ''You cant give at the same time a model and a dataset with an answer (output column). Gives either one or the other.'')
              else Inr \<lparr>e_attrs = obj_of [(''experiment_status'', VStr ''pending''),
                                          (''name'', VStr (ec_name self)),
                                          (''readme'', opt_val VStr (ec_readme self)),
                                          (''experiment_set_id'', opt_val VInt (ec_experiment_set_id self)),
                                          (''metrics'', VList (map VStr (ec_metrics self)))],
                        dataset = ds,
                        model = map_option ModelCreate_to_table_init (ec_model self),
                        results = rs\<rparr>))"

section \<open>crud.py and endpoints.py: creating and dispatching an experiment\<close>

text \<open>
  The state of a request: the dataset table, the experiment table, the next primary key,
  and the calls of \<^verbatim>\<open>dispatch_tasks\<close> made so far. \<^verbatim>\<open>dispatch_tasks\<close> belongs to
  \<^verbatim>\<open>api/runners\<close>, of which only the worker loop is among the sources: the model records
  each call, with the experiment and the phase it was given.
\<close>

record db =
  datasets_tbl :: "obj list"
  experiments_tbl :: "Experiment list"
  next_key :: int
  dispatched :: "(val \<times> string) list"

definition dispatch_tasks :: "db \<Rightarrow> Experiment \<Rightarrow> string \<Rightarrow> db" where
  "dispatch_tasks s db_exp phase = s\<lparr>dispatched := dispatched s @ [(e_attrs db_exp ''id'', phase)]\<rparr>"

text \<open>
  \<^verbatim>\<open>
  def create_experiment(db, experiment):
      experiment = (experiment.to_table_init(db) if isinstance(experiment, schemas.EgBaseModel) else experiment)
      db_exp = create_object_from_dict(db, models.Experiment, experiment)
      db.add(db_exp)
      db.commit()
      db.refresh(db_exp)
      return db_exp
  \<close>
  Storing gives the experiment a fresh primary key, which its results refer to, and stores a
  dataset that came with the request. A \<^verbatim>\<open>SchemaError\<close> leaves \<^verbatim>\<open>to_table_init\<close> before
  anything is added to the session.
\<close>

definition crud_create_experiment ::
  "registry \<Rightarrow> frame_reader \<Rightarrow> db \<Rightarrow> ExperimentCreate \<Rightarrow> (error + Experiment) \<times> db" where
  "crud_create_experiment mr read_json s experiment_in =
     (case ExperimentCreate_to_table_init mr read_json (datasets_tbl s) experiment_in of
        Inl e \<Rightarrow> (Inl e, s)
      | Inr init \<Rightarrow>
          (let key = next_key s;
               fresh = (dataset init ''id'' = VNone);
               ds = (if fresh then setattr (dataset init) ''id'' (VInt (key + 1)) else dataset init);
               db_exp = init\<lparr>e_attrs := setattr (setattr (e_attrs init) ''id'' (VInt key))
                                            ''dataset_id'' (ds ''id''),
                             dataset := ds,
                             results := map (\<lambda>r. r\<lparr>r_attrs := setattr (r_attrs r) ''experiment_id''
                                                                (VInt key)\<rparr>) (results init)\<rparr>
           in (Inr db_exp,
               s\<lparr>datasets_tbl := (if fresh then datasets_tbl s @ [ds] else datasets_tbl s),
                 experiments_tbl := experiments_tbl s @ [db_exp],
                 next_key := key + 2\<rparr>)))"

text \<open>
  What a creation endpoint answers: the created entity, an \<^verbatim>\<open>HTTPException\<close>, the
  response made of an \<^verbatim>\<open>IntegrityError\<close>, or any other exception raised again.
\<close>

datatype 'a outcome = Created 'a | Refused http_exception | Conflict string | Raised error

text \<open>
  \<^verbatim>\<open>
  def create_experiment(experiment, db):
      try:
          db_exp = crud.create_experiment(db, experiment)
          if _needs_output(db_exp):
              dispatch_tasks(db, db_exp, "answers")
          else:
              dispatch_tasks(db, db_exp, "observations")
          return db_exp
      except (SchemaError, ValidationError) as e:
          raise HTTPException(status_code=400, detail=str(e))
      except IntegrityError as e:
          return CustomIntegrityError.from_integrity_error(e.orig).to_http_response()
      except Exception as e:
          raise e
  \<close>
\<close>

definition on_error :: "error \<Rightarrow> 'a outcome" where
  "on_error e =
     (case e of
        SchemaError m \<Rightarrow> Refused (HTTPException 400 m)
      | ValidationError m \<Rightarrow> Refused (HTTPException 400 m)
      | IntegrityError m \<Rightarrow> Conflict m
      | _ \<Rightarrow> Raised e)"

definition create_experiment ::
  "registry \<Rightarrow> frame_reader \<Rightarrow> db \<Rightarrow> ExperimentCreate \<Rightarrow> Experiment outcome \<times> db" where
  "create_experiment mr read_json s experiment_in =
     (case crud_create_experiment mr read_json s experiment_in of
        (Inl e, s1) \<Rightarrow> (on_error e, s1)
      | (Inr db_exp, s1) \<Rightarrow>
          (Created db_exp,
           if needs_output mr db_exp then dispatch_tasks s1 db_exp ''answers''
           else dispatch_tasks s1 db_exp ''observations''))"



text \<open>
  The compatibility rules of the specification, for a request whose dataset has the given
  columns: a metric that requires \<open>query\<close>, \<open>output\<close> or \<open>output_true\<close> needs the column
  (for \<open>output\<close>: the column or a model), and a model together with an \<open>output\<close> column
  is an error.
\<close>

definition violates_compatibility :: "registry \<Rightarrow> obj \<Rightarrow> ExperimentCreate \<Rightarrow> bool" where
  "violates_compatibility mr ds req \<longleftrightarrow>
     (needs mr ''query'' (ec_metrics req) \<and> \<not> truthy (ds ''has_query'')) \<or>
     (needs mr ''output'' (ec_metrics req) \<and>
        \<not> (truthy (ds ''has_output'') \<or> ec_model req \<noteq> None)) \<or>
     (needs mr ''output_true'' (ec_metrics req) \<and> \<not> truthy (ds ''has_output_true'')) \<or>
     (ec_model req \<noteq> None \<and> truthy (ds ''has_output''))"

subsection \<open>Requests on a stored dataset with queries and ground truth\<close>

definition ex_read_json :: frame_reader where
  "ex_read_json df =
     (if df = ''qo'' then Some ([''query'', ''output''], 2)
      else if df = ''q'' then Some ([''query''], 4) else None)"

definition ex_mfs :: obj where
  "ex_mfs = obj_of [(''id'', VInt 1), (''name'', VStr ''mfs''), (''has_query'', VBool True),
                    (''has_output'', VBool False), (''has_output_true'', VBool True),
                    (''size'', VInt 3)]"

definition ex_db :: db where
  "ex_db = \<lparr>datasets_tbl = [ex_mfs], experiments_tbl = [], next_key = 7, dispatched = []\<rparr>"

definition ex_model :: ModelCreate where
  "ex_model = \<lparr>mc_name = ''m'', mc_base_url = ''http://llm'', mc_api_key = ''k'',
               mc_prompt_system = None, mc_sampling_params = None, mc_extra_params = None\<rparr>"

definition ex_request :: "string list \<Rightarrow> DatasetCreate + string \<Rightarrow> ModelCreate option \<Rightarrow> ExperimentCreate" where
  "ex_request ms ds m =
     \<lparr>ec_name = ''e'', ec_readme = None, ec_experiment_set_id = None, ec_metrics = ms,
      ec_dataset = ds, ec_model = m\<rparr>"

section \<open>Properties of the string functions\<close>

lemma digit_val_digit_char: "d < 10 \<Longrightarrow> digit_val (digit_char d) = d"
proof -
  assume "d < 10"
  then have "d \<in> {0,1,2,3,4,5,6,7,8,9}" by auto
  then show ?thesis by (auto simp: digit_val_def digit_char_def)
qed

lemma is_digit_digit_char: "d < 10 \<Longrightarrow> is_digit (digit_char d)"
proof -
  assume "d < 10"
  then have "d \<in> {0,1,2,3,4,5,6,7,8,9}" by auto
  then show ?thesis by (auto simp: is_digit_def digit_char_def)
qed

lemma all_digits_str_nat: "\<forall>c \<in> set (str_nat n). is_digit c"
proof (induction n rule: str_nat.induct)
  case (1 n)
  show ?case
  proof (cases "n < 10")
    case True
    then show ?thesis by (simp add: str_nat.simps [of n] is_digit_digit_char)
  next
    case False
    with 1 show ?thesis by (simp add: str_nat.simps [of n] is_digit_digit_char)
  qed
qed

lemma digits_val_str_nat: "digits_val (str_nat n) = n"
proof (induction n rule: str_nat.induct)
  case (1 n)
  show ?case
  proof (cases "n < 10")
    case True
    then show ?thesis
      by (simp add: str_nat.simps [of n] digits_val_def is_digit_digit_char digit_val_digit_char)
  next
    case False
    with 1 have ih: "digits_val (str_nat (n div 10)) = n div 10" by simp
    have "digits_val (str_nat n) = 10 * digits_val (str_nat (n div 10)) + n mod 10"
      using False
      by (simp add: str_nat.simps [of n] digits_val_def is_digit_digit_char digit_val_digit_char)
    with ih show ?thesis by simp
  qed
qed

lemma inj_str_nat: "str_nat m = str_nat n \<Longrightarrow> m = n"
  by (metis digits_val_str_nat)

lemma str_nat_nonempty: "str_nat n \<noteq> []"
  by (simp add: str_nat.simps [of n])

lemma not_digit_minus: "\<not> is_digit CHR ''-''"
  by (simp add: is_digit_def)

lemma str_nat_no_minus: "CHR ''-'' \<notin> set (str_nat n)"
  using all_digits_str_nat [of n] not_digit_minus by blast

lemma inj_str_int: "str_int i = str_int j \<Longrightarrow> i = j"
proof -
  assume eq: "str_int i = str_int j"
  have hd_nat: "\<And>n. hd (str_nat n) \<noteq> CHR ''-''"
    using str_nat_no_minus str_nat_nonempty by (metis list.set_sel(1))
  show ?thesis
  proof (cases "i < 0"; cases "j < 0")
    assume "i < 0" "j < 0"
    with eq have "nat (- i) = nat (- j)" by (auto simp: str_int_def dest: inj_str_nat)
    with \<open>i < 0\<close> \<open>j < 0\<close> show ?thesis by simp
  next
    assume "i < 0" "\<not> j < 0"
    with eq have "CHR ''-'' # str_nat (nat (- i)) = str_nat (nat j)" by (simp add: str_int_def)
    then have "hd (str_nat (nat j)) = CHR ''-''" by (metis list.sel(1))
    with hd_nat show ?thesis by simp
  next
    assume "\<not> i < 0" "j < 0"
    with eq have "str_nat (nat i) = CHR ''-'' # str_nat (nat (- j))" by (simp add: str_int_def)
    then have "hd (str_nat (nat i)) = CHR ''-''" by (metis list.sel(1))
    with hd_nat show ?thesis by simp
  next
    assume "\<not> i < 0" "\<not> j < 0"
    with eq have "nat i = nat j" by (auto simp: str_int_def dest: inj_str_nat)
    with \<open>\<not> i < 0\<close> \<open>\<not> j < 0\<close> show ?thesis by simp
  qed
qed

lemma str_nat_small: "n < 10 \<Longrightarrow> str_nat n = [digit_char n]"
  by (simp add: str_nat.simps [of n])

section \<open>Properties of the retry planner\<close>

lemma retry_results_acc:
  "retry_results rs rr =
     rr\<lparr>result_ids := result_ids rr @ map (\<lambda>r. r_attrs r ''id'') (filter result_incomplete rs)\<rparr>"
  by (induction rs arbitrary: rr) (simp_all add: result_incomplete_def)

lemma retry_experiments_acc:
  "retry_experiments mr es rr =
     rr\<lparr>experiment_ids := experiment_ids rr @ planned_experiment_ids mr es,
        result_ids := result_ids rr @ planned_result_ids mr es\<rparr>"
proof (induction es arbitrary: rr)
  case Nil
  show ?case by (simp add: planned_experiment_ids_def planned_result_ids_def)
next
  case (Cons e es)
  show ?case
    by (simp add: Cons.IH retry_results_acc planned_experiment_ids_def
        planned_result_ids_def exp_finished_def answers_incomplete_def)
qed

text \<open>
  C2. For every experiment set, the retry endpoint selects for answer-phase redispatch
  exactly the finished experiments with \<open>num_try \<noteq> num_success\<close> that needed model
  output, and for observation-phase redispatch exactly the finished results with
  \<open>num_try \<noteq> num_success\<close> of every other finished experiment; experiments that are
  not finished contribute nothing. The order is that of the set.
\<close>

theorem retry_runs_selects:
  "get_experimentset db set_id = Some es \<Longrightarrow>
   retry_runs mr db set_id =
     Inr \<lparr>experiment_ids = planned_experiment_ids mr (experiments es),
          result_ids = planned_result_ids mr (experiments es)\<rparr>"
  by (simp add: retry_runs_def retry_experiments_acc)

lemma ex_plan:
  "planned_experiment_ids ex_registry (experiments ex_set) = [VInt 10]"
  "planned_result_ids ex_registry (experiments ex_set) = [VInt 21, VInt 31]"
  by (simp_all add: planned_experiment_ids_def planned_result_ids_def ex_set_def ex_experiment_def
      ex_result_def obj_of_def exp_finished_def answers_incomplete_def result_incomplete_def
      needs_output_def ex_registry_def)

theorem retry_runs_selects_witness:
  "get_experimentset [ex_set] 1 = Some ex_set \<and>
   retry_runs ex_registry [ex_set] 1 = Inr \<lparr>experiment_ids = [VInt 10], result_ids = [VInt 21, VInt 31]\<rparr>"
proof -
  have h: "get_experimentset [ex_set] 1 = Some ex_set"
    by (simp add: get_experimentset_def ex_set_def obj_of_def)
  show ?thesis
    using h retry_runs_selects [OF h, of ex_registry] by (simp add: ex_plan)
qed

section \<open>Properties of removing a dataset\<close>

lemma linked_message_inj: "linked_message m = linked_message n \<Longrightarrow> m = n"
  by (simp add: linked_message_def inj_str_int)

text \<open>
  C7. A dataset that N > 0 experiments reference is not removed: \<open>remove_dataset\<close> raises
  a schema error whose message carries N (two messages are equal only for equal N) and
  leaves the dataset table as it was. The removal succeeds only when no experiment
  references the dataset, and then the row is gone.
\<close>

theorem remove_dataset_linked:
  "(0 < linked_count exps i \<longrightarrow>
      remove_dataset datasets exps i =
        (Inl (SchemaError (linked_message (linked_count exps i))), datasets)) \<and>
   (\<forall>m. linked_message m = linked_message (linked_count exps i) \<longrightarrow> m = linked_count exps i) \<and>
   (\<forall>datasets'. remove_dataset datasets exps i = (Inr True, datasets') \<longrightarrow>
      linked_count exps i = 0 \<and> find (\<lambda>d. d ''id'' = VInt i) datasets' = None)"
proof (intro conjI allI impI)
  assume "0 < linked_count exps i"
  then show "remove_dataset datasets exps i =
      (Inl (SchemaError (linked_message (linked_count exps i))), datasets)"
    by (simp add: remove_dataset_def)
next
  fix m
  assume "linked_message m = linked_message (linked_count exps i)"
  then show "m = linked_count exps i" by (rule linked_message_inj)
next
  fix datasets'
  assume ok: "remove_dataset datasets exps i = (Inr True, datasets')"
  then show "linked_count exps i = 0"
    by (auto simp: remove_dataset_def Let_def linked_count_def split: if_splits)
  from ok obtain d where d: "find (\<lambda>d. d ''id'' = VInt i) datasets = Some d"
    and ds': "datasets' = filter (\<lambda>x. x ''id'' \<noteq> d ''id'') datasets"
    by (auto simp: remove_dataset_def Let_def split: if_splits option.splits)
  from d have "d ''id'' = VInt i" by (auto simp: find_Some_iff)
  with ds' show "find (\<lambda>d. d ''id'' = VInt i) datasets' = None"
    by (auto simp: find_None_iff)
qed

lemma ex_linked_count: "linked_count ex_linked 1 = 2"
  by (simp add: linked_count_def ex_linked_def obj_of_def)

theorem remove_dataset_linked_witness:
  "0 < linked_count ex_linked 1 \<and>
   remove_dataset ex_datasets ex_linked 1 = (Inl (SchemaError (linked_message 2)), ex_datasets) \<and>
   linked_message 2 =
     ''This dataset is linked to 2 experiments.'' @ [CHR 0x0A] @
     ''You must either delete linked experiments or associated them to another dataset to remove this one.''"
  using remove_dataset_linked [of ex_linked 1 ex_datasets]
  by (simp add: ex_linked_count linked_message_def str_int_def str_nat_small digit_char_def)

section \<open>Properties of the update functions\<close>



lemma finish_result_idem: "finish_result (finish_result r) = finish_result r"
  by (simp add: finish_result_def setattr_def)

lemma results_update_experiment_fields:
  "results (update_experiment_fields db_exp patch) =
     (if (''experiment_status'', VStr ''finished'') \<in> set patch
      then map finish_result (results db_exp) else results db_exp)"
proof (induction patch arbitrary: db_exp)
  case Nil
  show ?case by simp
next
  case (Cons kv patch)
  obtain key v where kv: "kv = (key, v)" by (cases kv)
  show ?case
    by (auto simp: kv Cons.IH Let_def finish_result_idem)
qed

text \<open>
  C6. Whenever an update of an existing experiment sets \<open>experiment_status\<close> to
  \<open>finished\<close>, every result of the experiment has \<open>metric_status\<close> \<open>finished\<close>
  afterwards and is otherwise what it was: its counters are not looked at, so a result
  with \<open>num_try > num_success\<close> is finished as well.
\<close>

theorem update_experiment_finishes_results:
  assumes "find (\<lambda>e. e_attrs e ''id'' = VInt i) db = Some db_exp"
    and "(''experiment_status'', VStr ''finished'') \<in> set patch"
  shows "\<exists>updated. update_experiment db i patch =
           (Some updated, update_first (\<lambda>e. e_attrs e ''id'' = VInt i) (\<lambda>_. updated) db) \<and>
         results updated = map finish_result (results db_exp) \<and>
         (\<forall>r \<in> set (results updated). r_attrs r ''metric_status'' = VStr ''finished'')"
  using assms
  by (auto simp: update_experiment_def Let_def results_update_experiment_fields
      finish_result_def setattr_def)

lemma ex_running_found:
  "find (\<lambda>e. e_attrs e ''id'' = VInt 10) [ex_running] = Some ex_running"
  by (simp add: ex_running_def obj_of_def)

theorem update_experiment_finishes_results_witness:
  "find (\<lambda>e. e_attrs e ''id'' = VInt 10) [ex_running] = Some ex_running \<and>
   (''experiment_status'', VStr ''finished'') \<in> set ex_finish \<and>
   (\<exists>updated. update_experiment [ex_running] 10 ex_finish = (Some updated, [updated]) \<and>
      map (\<lambda>r. r_attrs r ''metric_status'') (results updated) = [VStr ''finished'', VStr ''finished''] \<and>
      map (\<lambda>r. (r_attrs r ''num_try'', r_attrs r ''num_success'')) (results updated) =
        [(VInt 5, VInt 4), (VInt 0, VInt 0)])"
proof -
  have patch: "(''experiment_status'', VStr ''finished'') \<in> set ex_finish"
    by (simp add: ex_finish_def)
  from update_experiment_finishes_results [OF ex_running_found patch]
  obtain updated where u: "update_experiment [ex_running] 10 ex_finish =
      (Some updated, update_first (\<lambda>e. e_attrs e ''id'' = VInt 10) (\<lambda>_. updated) [ex_running])"
    and r: "results updated = map finish_result (results ex_running)"
    by blast
  have "update_first (\<lambda>e. e_attrs e ''id'' = VInt 10) (\<lambda>_. updated) [ex_running] = [updated]"
    by (simp add: ex_running_def obj_of_def)
  with u r ex_running_found patch show ?thesis
    by (simp add: ex_running_def ex_result_def finish_result_def setattr_def obj_of_def)
qed







section \<open>Properties of the upserts\<close>












lemma update_first_others:
  "\<not> P x \<Longrightarrow> x \<in> set xs \<Longrightarrow> x \<in> set (update_first P f xs)"
  by (induction xs) auto










section \<open>Properties of creating an experiment\<close>

lemma resolve_dataset_error:
  "resolve_dataset read_json datasets ds = Inl e \<Longrightarrow> \<exists>m. e = SchemaError m"
  by (auto simp: resolve_dataset_def DatasetCreate_to_table_init_def Let_def
      split: sum.splits option.splits prod.splits if_splits)

lemma to_table_init_unresolved:
  "resolve_dataset read_json datasets (ec_dataset req) = Inl e \<Longrightarrow>
   ExperimentCreate_to_table_init mr read_json datasets req = Inl e"
  by (simp add: ExperimentCreate_to_table_init_def)

lemma to_table_init_violation:
  assumes "resolve_dataset read_json datasets (ec_dataset req) = Inr ds"
    and "violates_compatibility mr ds req"
  shows "\<exists>m. ExperimentCreate_to_table_init mr read_json datasets req = Inl (SchemaError m)"
  using assms
  by (auto simp: ExperimentCreate_to_table_init_def violates_compatibility_def Let_def)

lemma create_experiment_error:
  "ExperimentCreate_to_table_init mr read_json (datasets_tbl s) req = Inl (SchemaError m) \<Longrightarrow>
   create_experiment mr read_json s req = (Refused (HTTPException 400 m), s)"
  by (simp add: create_experiment_def crud_create_experiment_def on_error_def)

text \<open>
  C4. An experiment-creation request that violates the compatibility of its metrics with
  its dataset (in particular one that supplies a model and a dataset with an \<open>output\<close>
  column, or a metric requiring \<open>output_true\<close> on a dataset without it), and one whose
  dataset cannot be read or found, is answered with the schema error as status 400. The
  state is the one before the request: no experiment, result or dataset has been
  stored and no task has been dispatched.
\<close>

theorem create_experiment_rejects:
  "(\<forall>ds. resolve_dataset read_json (datasets_tbl s) (ec_dataset req) = Inr ds \<longrightarrow>
      violates_compatibility mr ds req \<longrightarrow>
      (\<exists>m. create_experiment mr read_json s req = (Refused (HTTPException 400 m), s))) \<and>
   (\<forall>e. resolve_dataset read_json (datasets_tbl s) (ec_dataset req) = Inl e \<longrightarrow>
      (\<exists>m. create_experiment mr read_json s req = (Refused (HTTPException 400 m), s)))"
proof (intro conjI allI impI)
  fix ds
  assume "resolve_dataset read_json (datasets_tbl s) (ec_dataset req) = Inr ds"
    and "violates_compatibility mr ds req"
  then obtain m where
    "ExperimentCreate_to_table_init mr read_json (datasets_tbl s) req = Inl (SchemaError m)"
    using to_table_init_violation by blast
  then show "\<exists>m. create_experiment mr read_json s req = (Refused (HTTPException 400 m), s)"
    using create_experiment_error by blast
next
  fix e
  assume r: "resolve_dataset read_json (datasets_tbl s) (ec_dataset req) = Inl e"
  then obtain m where "e = SchemaError m"
    using resolve_dataset_error by blast
  with r have
    "ExperimentCreate_to_table_init mr read_json (datasets_tbl s) req = Inl (SchemaError m)"
    using to_table_init_unresolved by blast
  then show "\<exists>m. create_experiment mr read_json s req = (Refused (HTTPException 400 m), s)"
    using create_experiment_error by blast
qed



lemma ex_resolve_qo:
  "resolve_dataset ex_read_json (datasets_tbl ex_db) (Inl \<lparr>dc_name = ''given'', dc_df = ''qo''\<rparr>) =
     Inr (obj_of [(''has_query'', VBool True), (''has_output'', VBool True),
                  (''has_output_true'', VBool False), (''size'', VInt 2),
                  (''name'', VStr ''given''), (''df'', VStr ''qo'')])"
  by (simp add: resolve_dataset_def DatasetCreate_to_table_init_def ex_read_json_def)

lemma ex_resolve_bad:
  "resolve_dataset ex_read_json (datasets_tbl ex_db) (Inl \<lparr>dc_name = ''given'', dc_df = ''{''\<rparr>) =
     Inl (SchemaError ''df should be a readable dataframe. Use df.to_json()...'')"
  by (simp add: resolve_dataset_def DatasetCreate_to_table_init_def ex_read_json_def)

theorem create_experiment_rejects_witness:
  "violates_compatibility ex_registry
     (obj_of [(''has_query'', VBool True), (''has_output'', VBool True),
              (''has_output_true'', VBool False), (''size'', VInt 2),
              (''name'', VStr ''given''), (''df'', VStr ''qo'')])
     (ex_request [''nb_tokens_prompt''] (Inl \<lparr>dc_name = ''given'', dc_df = ''qo''\<rparr>) (Some ex_model)) \<and>
   (\<exists>m. create_experiment ex_registry ex_read_json ex_db
           (ex_request [''nb_tokens_prompt''] (Inl \<lparr>dc_name = ''given'', dc_df = ''qo''\<rparr>) (Some ex_model)) =
         (Refused (HTTPException 400 m), ex_db)) \<and>
   violates_compatibility ex_registry
     (obj_of [(''has_query'', VBool True), (''has_output'', VBool True),
              (''has_output_true'', VBool False), (''size'', VInt 2),
              (''name'', VStr ''given''), (''df'', VStr ''qo'')])
     (ex_request [''judge_exactness''] (Inl \<lparr>dc_name = ''given'', dc_df = ''qo''\<rparr>) None) \<and>
   (\<exists>m. create_experiment ex_registry ex_read_json ex_db
           (ex_request [''judge_exactness''] (Inl \<lparr>dc_name = ''given'', dc_df = ''qo''\<rparr>) None) =
         (Refused (HTTPException 400 m), ex_db)) \<and>
   (\<exists>m. create_experiment ex_registry ex_read_json ex_db
           (ex_request [''judge_exactness''] (Inl \<lparr>dc_name = ''given'', dc_df = ''{''\<rparr>) None) =
         (Refused (HTTPException 400 m), ex_db))"
proof -
  let ?ds = "obj_of [(''has_query'', VBool True), (''has_output'', VBool True),
      (''has_output_true'', VBool False), (''size'', VInt 2),
      (''name'', VStr ''given''), (''df'', VStr ''qo'')]"
  let ?both = "ex_request [''nb_tokens_prompt''] (Inl \<lparr>dc_name = ''given'', dc_df = ''qo''\<rparr>) (Some ex_model)"
  let ?truth = "ex_request [''judge_exactness''] (Inl \<lparr>dc_name = ''given'', dc_df = ''qo''\<rparr>) None"
  let ?bad = "ex_request [''judge_exactness''] (Inl \<lparr>dc_name = ''given'', dc_df = ''{''\<rparr>) None"
  have v1: "violates_compatibility ex_registry ?ds ?both"
    by (simp add: violates_compatibility_def ex_request_def obj_of_def)
  have v2: "violates_compatibility ex_registry ?ds ?truth"
    by (simp add: violates_compatibility_def ex_request_def obj_of_def needs_def ex_registry_def)
  have r1: "resolve_dataset ex_read_json (datasets_tbl ex_db) (ec_dataset ?both) = Inr ?ds"
    using ex_resolve_qo by (simp add: ex_request_def)
  have r2: "resolve_dataset ex_read_json (datasets_tbl ex_db) (ec_dataset ?truth) = Inr ?ds"
    using ex_resolve_qo by (simp add: ex_request_def)
  have r3: "resolve_dataset ex_read_json (datasets_tbl ex_db) (ec_dataset ?bad) =
      Inl (SchemaError ''df should be a readable dataframe. Use df.to_json()...'')"
    using ex_resolve_bad by (simp add: ex_request_def)
  from create_experiment_rejects [of ex_read_json ex_db ?both ex_registry] r1 v1
  have c1: "\<exists>m. create_experiment ex_registry ex_read_json ex_db ?both =
      (Refused (HTTPException 400 m), ex_db)"
    by blast
  from create_experiment_rejects [of ex_read_json ex_db ?truth ex_registry] r2 v2
  have c2: "\<exists>m. create_experiment ex_registry ex_read_json ex_db ?truth =
      (Refused (HTTPException 400 m), ex_db)"
    by blast
  from create_experiment_rejects [of ex_read_json ex_db ?bad ex_registry] r3
  have c3: "\<exists>m. create_experiment ex_registry ex_read_json ex_db ?bad =
      (Refused (HTTPException 400 m), ex_db)"
    by blast
  from v1 c1 v2 c2 c3 show ?thesis by blast
qed

section \<open>Properties of the choice of the first phase\<close>













end
